theory Spec2Isabelle
  imports Main "HOL-Library.AList"
begin

section \<open>The window service client of tauri-plugin-windows\<close>

text \<open>
  The client is the class \<open>Windows\<close> of \<^verbatim>\<open>webview-src/index.ts\<close>: seven methods, each of
  which builds an argument record and hands it, with a command name, to the function
  \<open>invoke\<close> imported from \<^verbatim>\<open>@tauri-apps/api/tauri\<close>, returning whatever promise that function
  returns. The module creates one instance, freezes it and exports it.

  The embedding keeps an explicit store of webview objects, because the claims about the
  client speak about object identity (the exported instance, the caller's configuration,
  the error a promise rejects with) and about mutation.
\<close>

subsection \<open>Values\<close>

text \<open>
  A JavaScript value is a primitive or a reference to an object of the store. Numbers are
  IEEE doubles; no line of the client inspects or computes with one, so the embedding is
  parametric in their representation \<open>'n\<close>.
\<close>

type_synonym ref = nat

datatype 'n jsval =
    JUndefined
  | JNull
  | JBoolean bool
  | JNumber 'n
  | JBigInt int
  | JString string
  | JSymbol nat
  | JRef ref

text \<open>A field of type \<^verbatim>\<open>T | null | undefined\<close>.\<close>

datatype 'a nullable = Undefined | Null | Value 'a

subsection \<open>The data model (\<^verbatim>\<open>windows.d.ts\<close>)\<close>

datatype OpenContext = Cli | Dock | Menu | Dialog | Desktop

record WindowOpenable =
  folder_uri :: "string nullable"
  file_uri :: "string nullable"

text \<open>
  The field \<^verbatim>\<open>context\<close> of the source is \<open>open_context\<close> here: \<^verbatim>\<open>context\<close> is a reserved
  word of the theory language.
\<close>

record OpenConfiguration =
  label :: "string nullable"
  url :: "string nullable"
  uris_to_open :: "WindowOpenable list nullable"
  context_window_label :: "string nullable"
  open_context :: OpenContext
  force_new_window :: bool
  force_new_tabbed_window :: bool
  force_reuse_window :: bool
  force_empty_window :: bool
  prefer_new_window :: bool
  initial_startup :: bool
  diff_mode :: bool

record 'n WindowSize =
  width :: 'n
  height :: 'n

record 'n WindowPosition =
  x :: 'n
  y :: 'n

datatype Theme = Light | Dark

record EmptyWindowBackupInfo =
  backup_folder :: string

record FilesToOpen =
  files_to_open_or_create :: "string list"
  files_to_diff :: "string list"
  files_to_wait :: "string list"

record 'n TauriWindowOptions =
  label :: "string nullable"
  url :: "string nullable"
  always_on_top :: "bool nullable"
  center :: bool
  decorations :: "bool nullable"
  focus :: bool
  fullscreen :: "bool nullable"
  inner_size :: "'n WindowSize nullable"
  max_inner_size :: "'n WindowSize nullable"
  maximized :: "bool nullable"
  min_inner_size :: "'n WindowSize nullable"
  position :: "'n WindowPosition nullable"
  resizable :: "bool nullable"
  skip_taskbar :: "bool nullable"
  theme :: "Theme nullable"
  title :: "string nullable"
  transparent :: "bool nullable"
  visible :: "bool nullable"

record 'n WindowOptions = "'n TauriWindowOptions" +
  initial_startup :: bool
  force_new_window :: bool
  force_new_tabbed_window :: bool
  force_reuse_window :: bool
  force_empty_window :: bool
  empty_window_backup_info :: "EmptyWindowBackupInfo nullable"
  files_to_open :: FilesToOpen
  window_to_use :: "string nullable"
  folder :: "string nullable"

subsection \<open>The store\<close>

text \<open>
  An object of the store is one of the two typed records a caller passes to the client, or
  an ordinary object: its prototype, its own properties in creation order, and whether
  \<^verbatim>\<open>Object.freeze\<close> was applied to it. Object literals, arrays, errors and the
  instance of \<open>Windows\<close> are ordinary objects. Only data properties are modelled; a
  frozen object is not extensible and its own properties are neither writable nor
  configurable, an object that is not frozen is extensible with writable, configurable
  properties (the only two states the objects of this program are ever in).
\<close>

datatype prototype = Object_prototype | Array_prototype | Error_prototype | Windows_prototype

record 'n object =
  prototype :: prototype
  own :: "(string \<times> 'n jsval) list"
  frozen :: bool

datatype 'n cell =
    OpenConfiguration_cell OpenConfiguration
  | WindowOptions_cell "'n WindowOptions"
  | Object_cell "'n object"

type_synonym 'n heap = "'n cell list"

text \<open>An address is allocated when it is below the length of the store.\<close>

definition lookup :: "'n heap \<Rightarrow> ref \<Rightarrow> 'n cell option" where
  "lookup h r = (if r < length h then Some (h ! r) else None)"

subsection \<open>Promises and the remote-invocation primitive\<close>

text \<open>
  A promise settles at most once. It is modelled by its identity and by what it settles
  to: \<open>Pending\<close> is the promise that never settles. \<^verbatim>\<open>Promise<null>\<close> is a promise of
  \<open>unit\<close>, \<^verbatim>\<open>Promise<string>\<close> a promise of \<open>string\<close>.
\<close>

datatype ('n, 'a) settlement = Pending | Fulfilled 'a | Rejected "'n jsval"

record ('n, 'a) promise =
  identity :: nat
  settles :: "('n, 'a) settlement"

type_synonym 'n arguments = "(string \<times> 'n jsval) list"

text \<open>
  The imported \<^verbatim>\<open>invoke<T>(cmd, args?)\<close> is not code of this repository: it is a parameter
  of every method below. It receives the command name, the argument record (the own
  properties of the object literal, in order; \<open>None\<close> when the argument is omitted), the
  store and the opaque state \<open>'h\<close> of the host, and returns a promise of \<open>'a\<close> with the
  store and host state it leaves. Nothing is assumed of it. The object literal is new at
  every call and no one else refers to it, so it is handed over by its contents; the
  values in it are the caller's, references included.
\<close>

type_synonym ('n, 'h, 'a) invoke_fn =
  "string \<Rightarrow> 'n arguments option \<Rightarrow> 'n heap \<times> 'h \<Rightarrow> ('n, 'a) promise \<times> 'n heap \<times> 'h"

record 'n request =
  command :: string
  arguments :: "'n arguments option"

text \<open>
  The state of a run: the store, the host, the module registry's entry for
  \<^verbatim>\<open>index.ts\<close> (\<open>None\<close> until its first import), and the remote calls issued so far,
  oldest first. The last is a history of the run, kept to state what was sent; it is no
  object of the program and nothing reads it.
\<close>

record ('n, 'h) state =
  heap :: "'n heap"
  host :: 'h
  issued :: "'n request list"
  module_cache :: "ref option"

text \<open>A call of the imported function: it is recorded, and the primitive runs.\<close>

definition invoke ::
  "('n, 'h, 'a) invoke_fn \<Rightarrow> string \<Rightarrow> 'n arguments option \<Rightarrow> ('n, 'h) state
    \<Rightarrow> ('n, 'a) promise \<times> ('n, 'h) state" where
  "invoke prim cmd args s =
     (case prim cmd args (heap s, host s) of
        (p, h, e) \<Rightarrow>
          (p, s\<lparr>heap := h, host := e,
                issued := issued s @ [\<lparr>command = cmd, arguments = args\<rparr>]\<rparr>))"

subsection \<open>The methods of class \<open>Windows\<close>\<close>

text \<open>
  A parameter of an object type is the address of the caller's object; the shorthand
  property \<^verbatim>\<open>{ configuration }\<close> stores that reference under the key of the same name.

  The result types \<^verbatim>\<open>Promise<null>\<close> and \<^verbatim>\<open>Promise<string>\<close> are annotations: no
  method looks at what the promise of the primitive holds, and nothing checks it when the
  code runs. So each method is defined for a primitive of any result type \<open>'a\<close>; the
  declared types are the instances \<open>unit\<close> and \<open>string\<close>, and a primitive that replies
  with any value at all is the instance \<open>'n jsval\<close>.
\<close>

definition open_window ::
  "('n, 'h, 'a) invoke_fn \<Rightarrow> ref \<Rightarrow> ('n, 'h) state \<Rightarrow> ('n, 'a) promise \<times> ('n, 'h) state" where
  "open_window prim configuration =
     invoke prim ''plugin:windows|open_window''
       (Some [(''configuration'', JRef configuration)])"

definition open_empty_window ::
  "('n, 'h, 'a) invoke_fn \<Rightarrow> ref \<Rightarrow> ref \<Rightarrow> ('n, 'h) state
    \<Rightarrow> ('n, 'a) promise \<times> ('n, 'h) state" where
  "open_empty_window prim configuration options =
     invoke prim ''plugin:windows|open_empty_window''
       (Some [(''configuration'', JRef configuration), (''options'', JRef options)])"

definition open_existing_window ::
  "('n, 'h, 'a) invoke_fn \<Rightarrow> ref \<Rightarrow> string \<Rightarrow> ('n, 'h) state
    \<Rightarrow> ('n, 'a) promise \<times> ('n, 'h) state" where
  "open_existing_window prim configuration windowToUse =
     invoke prim ''plugin:windows|open_existing_window''
       (Some [(''configuration'', JRef configuration), (''windowToUse'', JString windowToUse)])"

definition send_to_focused ::
  "('n, 'h, 'a) invoke_fn \<Rightarrow> string \<Rightarrow> 'n jsval \<Rightarrow> ('n, 'h) state
    \<Rightarrow> ('n, 'a) promise \<times> ('n, 'h) state" where
  "send_to_focused prim channel payload =
     invoke prim ''plugin:windows|send_to_focused''
       (Some [(''channel'', JString channel), (''payload'', payload)])"

definition send_to_all ::
  "('n, 'h, 'a) invoke_fn \<Rightarrow> string \<Rightarrow> 'n jsval \<Rightarrow> ('n, 'h) state
    \<Rightarrow> ('n, 'a) promise \<times> ('n, 'h) state" where
  "send_to_all prim channel payload =
     invoke prim ''plugin:windows|send_to_all''
       (Some [(''channel'', JString channel), (''payload'', payload)])"

definition get_focused_window ::
  "('n, 'h, 'a) invoke_fn \<Rightarrow> ('n, 'h) state \<Rightarrow> ('n, 'a) promise \<times> ('n, 'h) state" where
  "get_focused_window prim = invoke prim ''plugin:windows|get_focused_window'' None"

definition get_last_active_window ::
  "('n, 'h, 'a) invoke_fn \<Rightarrow> ('n, 'h) state \<Rightarrow> ('n, 'a) promise \<times> ('n, 'h) state" where
  "get_last_active_window prim = invoke prim ''plugin:windows|get_last_active_window'' None"

subsection \<open>Calling a method on an object\<close>

text \<open>
  A call \<^verbatim>\<open>obj.open_window(c)\<close> first finds the property \<^verbatim>\<open>open_window\<close>: an own
  property of the object if there is one, the method of the class when the object's
  prototype is that of \<open>Windows\<close>. \<open>operation\<close> names a method together with its
  arguments; \<open>tauri\<close> holds the imported generic \<^verbatim>\<open>invoke<T>\<close> at the two result types
  the class uses it at.
\<close>

datatype 'n operation =
    Open_window ref
  | Open_empty_window ref ref
  | Open_existing_window ref string
  | Send_to_focused string "'n jsval"
  | Send_to_all string "'n jsval"
  | Get_focused_window
  | Get_last_active_window

fun method_name :: "'n operation \<Rightarrow> string" where
  "method_name (Open_window _) = ''open_window''"
| "method_name (Open_empty_window _ _) = ''open_empty_window''"
| "method_name (Open_existing_window _ _) = ''open_existing_window''"
| "method_name (Send_to_focused _ _) = ''send_to_focused''"
| "method_name (Send_to_all _ _) = ''send_to_all''"
| "method_name Get_focused_window = ''get_focused_window''"
| "method_name Get_last_active_window = ''get_last_active_window''"

text \<open>The arguments of a call, in the order of the method's parameter list.\<close>

fun parameters :: "'n operation \<Rightarrow> 'n jsval list" where
  "parameters (Open_window configuration) = [JRef configuration]"
| "parameters (Open_empty_window configuration options) = [JRef configuration, JRef options]"
| "parameters (Open_existing_window configuration windowToUse) =
     [JRef configuration, JString windowToUse]"
| "parameters (Send_to_focused channel payload) = [JString channel, payload]"
| "parameters (Send_to_all channel payload) = [JString channel, payload]"
| "parameters Get_focused_window = []"
| "parameters Get_last_active_window = []"

text \<open>The \<open>n\<close>-th argument of a call, counted from one.\<close>

definition nth_parameter :: "nat \<Rightarrow> 'n operation \<Rightarrow> 'n jsval option" where
  "nth_parameter n opn =
     (if 1 \<le> n \<and> n \<le> length (parameters opn) then Some (parameters opn ! (n - 1))
      else None)"

record ('n, 'h) tauri =
  invoke_null :: "('n, 'h, unit) invoke_fn"
  invoke_string :: "('n, 'h, string) invoke_fn"

text \<open>
  What a call evaluates to: the promise a method of the class returned; \<open>Foreign_call v\<close>
  when the property found is an own property holding \<open>v\<close>, so that code other than the
  class's would run; \<open>Not_a_function\<close> when no property of that name is found.
\<close>

datatype 'n returned =
    Null_promise "('n, unit) promise"
  | String_promise "('n, string) promise"
  | Foreign_call "'n jsval"
  | Not_a_function

fun run_method ::
  "('n, 'h) tauri \<Rightarrow> 'n operation \<Rightarrow> ('n, 'h) state \<Rightarrow> 'n returned \<times> ('n, 'h) state" where
  "run_method t (Open_window c) s =
     (case open_window (invoke_null t) c s of (p, s') \<Rightarrow> (Null_promise p, s'))"
| "run_method t (Open_empty_window c w) s =
     (case open_empty_window (invoke_null t) c w s of (p, s') \<Rightarrow> (Null_promise p, s'))"
| "run_method t (Open_existing_window c w) s =
     (case open_existing_window (invoke_null t) c w s of (p, s') \<Rightarrow> (Null_promise p, s'))"
| "run_method t (Send_to_focused c v) s =
     (case send_to_focused (invoke_null t) c v s of (p, s') \<Rightarrow> (Null_promise p, s'))"
| "run_method t (Send_to_all c v) s =
     (case send_to_all (invoke_null t) c v s of (p, s') \<Rightarrow> (Null_promise p, s'))"
| "run_method t Get_focused_window s =
     (case get_focused_window (invoke_string t) s of (p, s') \<Rightarrow> (String_promise p, s'))"
| "run_method t Get_last_active_window s =
     (case get_last_active_window (invoke_string t) s of (p, s') \<Rightarrow> (String_promise p, s'))"

definition call_member ::
  "('n, 'h) tauri \<Rightarrow> ref \<Rightarrow> 'n operation \<Rightarrow> ('n, 'h) state \<Rightarrow> 'n returned \<times> ('n, 'h) state" where
  "call_member t r opn s =
     (case lookup (heap s) r of
        Some (Object_cell ob) \<Rightarrow>
          (case map_of (own ob) (method_name opn) of
             Some v \<Rightarrow> (Foreign_call v, s)
           | None \<Rightarrow>
               if prototype ob = Windows_prototype then run_method t opn s
               else (Not_a_function, s))
      | _ \<Rightarrow> (Not_a_function, s))"

text \<open>
  One run of the primitive for an operation: the instance of \<^verbatim>\<open>invoke<T>\<close> that the
  operation's declared result type selects, applied to a request and to a store and host.
\<close>

fun returns_string :: "'n operation \<Rightarrow> bool" where
  "returns_string Get_focused_window = True"
| "returns_string Get_last_active_window = True"
| "returns_string _ = False"

definition primitive_run ::
  "('n, 'h) tauri \<Rightarrow> 'n operation \<Rightarrow> 'n request \<Rightarrow> 'n heap \<times> 'h
    \<Rightarrow> 'n returned \<times> 'n heap \<times> 'h" where
  "primitive_run t opn rq w =
     (if returns_string opn then
        (case invoke_string t (command rq) (arguments rq) w of
           (p, w') \<Rightarrow> (String_promise p, w'))
      else
        (case invoke_null t (command rq) (arguments rq) w of
           (p, w') \<Rightarrow> (Null_promise p, w')))"

text \<open>A promise, of any value, that is fulfilled with a string.\<close>

definition resolves_to_string :: "('n, 'n jsval) promise \<Rightarrow> bool" where
  "resolves_to_string p =
     (case settles p of Fulfilled (JString _) \<Rightarrow> True | _ \<Rightarrow> False)"

subsection \<open>Writing to the properties of an object\<close>

text \<open>
  An assignment \<^verbatim>\<open>obj.k = v\<close> and a \<^verbatim>\<open>delete obj.k\<close>, in strict or sloppy code, on an
  ordinary object. On a frozen object an assignment has no effect, and neither has the
  deletion of a property it owns: sloppy code goes on (\<open>Ignored\<close>), strict code gets a
  \<^verbatim>\<open>TypeError\<close> (\<open>Thrown\<close>). Deleting a property the object does not own succeeds and
  changes nothing. The result is \<open>None\<close> at an address that holds no ordinary object.

  The one inherited accessor an assignment can reach is \<^verbatim>\<open>__proto__\<close> of
  \<^verbatim>\<open>Object.prototype\<close>: its setter does nothing for a value that is neither an object
  nor \<^verbatim>\<open>null\<close>, and otherwise asks for a new prototype, which a frozen object refuses
  with a \<^verbatim>\<open>TypeError\<close> in strict and sloppy code alike (the prototypes of this model
  are not objects of the store, so no value denotes the prototype the object already
  has). Giving an object that is not frozen another prototype is outside the model
  (\<open>None\<close>).
\<close>

datatype completion = Done | Ignored | Thrown

definition is_object_or_null :: "'n jsval \<Rightarrow> bool" where
  "is_object_or_null v = (case v of JRef _ \<Rightarrow> True | JNull \<Rightarrow> True | _ \<Rightarrow> False)"

definition assign_property ::
  "bool \<Rightarrow> ref \<Rightarrow> string \<Rightarrow> 'n jsval \<Rightarrow> 'n heap \<Rightarrow> (completion \<times> 'n heap) option" where
  "assign_property strict r k v h =
     (case lookup h r of
        Some (Object_cell ob) \<Rightarrow>
          if k = ''__proto__'' \<and> map_of (own ob) k = None then
            (if is_object_or_null v then (if frozen ob then Some (Thrown, h) else None)
             else Some (Ignored, h))
          else
            Some (if frozen ob then (if strict then Thrown else Ignored, h)
                  else (Done, h[r := Object_cell (ob\<lparr>own := AList.update k v (own ob)\<rparr>)]))
      | _ \<Rightarrow> None)"


subsection \<open>The module\<close>

text \<open>
  \<^verbatim>\<open>new Windows()\<close>: the constructor's body is empty and the class declares no field, so
  the new object has no own property. \<^verbatim>\<open>Object.freeze\<close> marks an ordinary object frozen
  (the program applies it to the new instance only).
\<close>

definition new_Windows :: "'n heap \<Rightarrow> ref \<times> 'n heap" where
  "new_Windows h =
     (length h, h @ [Object_cell \<lparr>prototype = Windows_prototype, own = [], frozen = False\<rparr>])"





subsection \<open>Reading a request\<close>

text \<open>The \<open>n\<close>-th entry of a request's argument record, counted from one.\<close>

definition nth_argument :: "nat \<Rightarrow> 'n request \<Rightarrow> (string \<times> 'n jsval) option" where
  "nth_argument n rq =
     (case arguments rq of
        None \<Rightarrow> None
      | Some a \<Rightarrow> if 1 \<le> n \<and> n \<le> length a then Some (a ! (n - 1)) else None)"

text \<open>
  A primitive that writes to no object the webview already holds: the store it leaves
  starts with the store it was given (it may allocate).
\<close>

definition keeps_objects :: "('n, 'h, 'a) invoke_fn \<Rightarrow> bool" where
  "keeps_objects prim =
     (\<forall>cmd args h e. take (length h) (fst (snd (prim cmd args (h, e)))) = h)"

subsection \<open>Sample hosts and a sample store\<close>

text \<open>
  Two primitives to run the methods on: one whose promise is fulfilled with a given
  value, one whose promise is rejected with a given error. Both leave store and host
  alone.
\<close>

definition fulfils_with :: "'a \<Rightarrow> ('n, 'h, 'a) invoke_fn" where
  "fulfils_with v cmd args w = (\<lparr>identity = 0, settles = Fulfilled v\<rparr>, w)"

definition rejects_with :: "'n jsval \<Rightarrow> ('n, 'h, 'a) invoke_fn" where
  "rejects_with e cmd args w = (\<lparr>identity = 0, settles = Rejected e\<rparr>, w)"

definition sample_configuration :: OpenConfiguration where
  "sample_configuration =
     \<lparr>OpenConfiguration.label = Value ''main'',
      OpenConfiguration.url = Null,
      uris_to_open = Value [\<lparr>folder_uri = Null, file_uri = Value ''file:///notes.txt''\<rparr>],
      context_window_label = Undefined,
      open_context = Cli,
      OpenConfiguration.force_new_window = False,
      OpenConfiguration.force_new_tabbed_window = False,
      OpenConfiguration.force_reuse_window = True,
      OpenConfiguration.force_empty_window = False,
      prefer_new_window = False,
      OpenConfiguration.initial_startup = True,
      diff_mode = False\<rparr>"

definition sample_options :: "int WindowOptions" where
  "sample_options =
     \<lparr>TauriWindowOptions.label = Value ''main'',
      TauriWindowOptions.url = Undefined,
      always_on_top = Null,
      center = True,
      decorations = Value True,
      focus = True,
      fullscreen = Value False,
      inner_size = Value \<lparr>width = 800, height = 600\<rparr>,
      max_inner_size = Null,
      maximized = Undefined,
      min_inner_size = Null,
      position = Value \<lparr>x = 10, y = 20\<rparr>,
      resizable = Value True,
      skip_taskbar = Null,
      theme = Value Dark,
      title = Value ''Notes'',
      transparent = Null,
      visible = Value True,
      WindowOptions.initial_startup = False,
      WindowOptions.force_new_window = False,
      WindowOptions.force_new_tabbed_window = False,
      WindowOptions.force_reuse_window = False,
      WindowOptions.force_empty_window = True,
      empty_window_backup_info = Value \<lparr>backup_folder = ''backups/1''\<rparr>,
      files_to_open =
        \<lparr>files_to_open_or_create = [''notes.txt''], files_to_diff = [], files_to_wait = []\<rparr>,
      window_to_use = Undefined,
      folder = Null\<rparr>"

text \<open>
  A store with a configuration at address 0, options at 1, an error object at 2, and at 3
  an array holding \<^verbatim>\<open>null\<close> and the record at address 4.
\<close>

definition sample_store :: "int heap" where
  "sample_store =
     [OpenConfiguration_cell sample_configuration,
      WindowOptions_cell sample_options,
      Object_cell \<lparr>prototype = Error_prototype,
                   own = [(''message'', JString ''no such window'')], frozen = False\<rparr>,
      Object_cell \<lparr>prototype = Array_prototype,
                   own = [(''0'', JNull), (''1'', JRef 4)], frozen = False\<rparr>,
      Object_cell \<lparr>prototype = Object_prototype,
                   own = [(''depth'', JNumber 2)], frozen = False\<rparr>]"

definition sample_state :: "(int, unit) state" where
  "sample_state = \<lparr>heap = sample_store, host = (), issued = [], module_cache = None\<rparr>"

definition sample_tauri :: "(int, unit) tauri" where
  "sample_tauri = \<lparr>invoke_null = fulfils_with (), invoke_string = fulfils_with ''main''\<rparr>"

section \<open>Properties\<close>

subsection \<open>What one call of the primitive does to the state\<close>

lemma invoke_issued:
  "issued (snd (invoke prim cmd args s)) = issued s @ [\<lparr>command = cmd, arguments = args\<rparr>]"
  by (simp add: invoke_def split: prod.splits)

lemma invoke_one_more:
  "length (issued (snd (invoke prim cmd args s))) = Suc (length (issued s))"
  by (simp add: invoke_issued)

lemma invoke_promise:
  "fst (invoke prim cmd args s) = fst (prim cmd args (heap s, host s))"
  by (simp add: invoke_def split: prod.splits)

lemmas method_defs =
  open_window_def open_empty_window_def open_existing_window_def send_to_focused_def
  send_to_all_def get_focused_window_def get_last_active_window_def

lemma invoke_result:
  "(fst (invoke prim cmd args s), heap (snd (invoke prim cmd args s)),
      host (snd (invoke prim cmd args s)))
     = prim cmd args (heap s, host s)"
  by (simp add: invoke_def split: prod.splits)

subsection \<open>The request each method sends\<close>

text \<open>
  C1. For every configuration, \<open>open_window\<close> issues exactly one remote call: the list of
  issued calls grows by one request, whose command is \<^verbatim>\<open>plugin:windows|open_window\<close> and
  whose argument record has the single entry \<open>configuration\<close>, the reference the caller
  passed. The promise returned and the store and host left are those of that one run of
  the primitive on the caller's store.
\<close>

theorem open_window_issues_one_call:
  "issued (snd (open_window prim configuration s))
     = issued s @ [\<lparr>command = ''plugin:windows|open_window'',
                     arguments = Some [(''configuration'', JRef configuration)]\<rparr>]
   \<and> (fst (open_window prim configuration s), heap (snd (open_window prim configuration s)),
        host (snd (open_window prim configuration s)))
     = prim ''plugin:windows|open_window'' (Some [(''configuration'', JRef configuration)])
         (heap s, host s)"
  unfolding open_window_def by (simp only: invoke_issued invoke_result simp_thms)

text \<open>
  C3. For every pair of inputs, \<open>open_empty_window\<close> makes one remote call, and the
  argument record of that call has exactly two entries: the configuration under
  \<open>configuration\<close> and the options under \<open>options\<close>, each the caller's own reference; the
  keys differ, and looking either key up gives the matching input. That record is what
  the one run of the primitive receives, on the caller's store, and it is what the
  history shows.
\<close>

theorem open_empty_window_two_named_arguments:
  "\<exists>a. a = [(''configuration'', JRef configuration), (''options'', JRef options)]
      \<and> (fst (open_empty_window prim configuration options s),
           heap (snd (open_empty_window prim configuration options s)),
           host (snd (open_empty_window prim configuration options s)))
         = prim ''plugin:windows|open_empty_window'' (Some a) (heap s, host s)
      \<and> issued (snd (open_empty_window prim configuration options s))
         = issued s @ [\<lparr>command = ''plugin:windows|open_empty_window'', arguments = Some a\<rparr>]
      \<and> map_of a ''configuration'' = Some (JRef configuration)
      \<and> map_of a ''options'' = Some (JRef options)
      \<and> distinct (map fst a) \<and> length a = 2"
  unfolding open_empty_window_def by (simp add: invoke_issued invoke_result)

text \<open>
  C4, as the code has it. For every input, \<open>open_existing_window\<close> makes one remote
  call, and the argument record the primitive receives in it, the one the history shows,
  carries the identifier as a string under exactly the key \<open>windowToUse\<close>; the record has
  no key \<open>window_to_use\<close>; its keys are \<open>configuration\<close> and \<open>windowToUse\<close>, in this
  order. The identifier is the second of the method's two arguments and the second and
  last entry of the record: neither has a third.
\<close>

theorem open_existing_window_key_windowToUse:
  "\<exists>rq a. issued (snd (open_existing_window prim configuration windowToUse s)) = issued s @ [rq]
      \<and> command rq = ''plugin:windows|open_existing_window''
      \<and> arguments rq = Some a
      \<and> (fst (open_existing_window prim configuration windowToUse s),
           heap (snd (open_existing_window prim configuration windowToUse s)),
           host (snd (open_existing_window prim configuration windowToUse s)))
         = prim ''plugin:windows|open_existing_window'' (Some a) (heap s, host s)
      \<and> a = [(''configuration'', JRef configuration), (''windowToUse'', JString windowToUse)]
      \<and> map_of a ''windowToUse'' = Some (JString windowToUse)
      \<and> map_of a ''window_to_use'' = None
      \<and> map fst a = [''configuration'', ''windowToUse'']
      \<and> nth_argument 2 rq = Some (''windowToUse'', JString windowToUse)
      \<and> nth_argument 3 rq = None
      \<and> nth_parameter 2 (Open_existing_window configuration windowToUse)
          = Some (JString windowToUse)
      \<and> nth_parameter 3 (Open_existing_window configuration windowToUse) = None"
  unfolding open_existing_window_def
  by (simp add: invoke_issued invoke_result nth_argument_def nth_parameter_def)

text \<open>
  C4, as the claim states it, fails: for the configuration at address 0 of the sample
  store and the window \<open>main\<close>, the identifier is not the third argument of the call,
  which has two, and not the third entry of the record the request carries, which has
  two.
\<close>

theorem open_existing_window_third_argument_counterexample:
  "nth_parameter 3 (Open_existing_window 0 ''main'') \<noteq> Some (JString ''main'')
   \<and> nth_argument 3
       (last (issued (snd (open_existing_window (fulfils_with ()) 0 ''main'' sample_state))))
     \<noteq> Some (''windowToUse'', JString ''main'')"
  by (simp add: open_existing_window_def invoke_issued nth_argument_def nth_parameter_def)

text \<open>
  C5. For every channel and every payload value, \<open>send_to_focused\<close> and \<open>send_to_all\<close>
  each send one request whose argument record holds the channel under \<open>channel\<close> and the
  very payload value under \<open>payload\<close>; whatever the payload is, the call goes to the
  primitive, on the caller's store as it stands, and the primitive's promise comes back:
  there is no branch that rejects or alters a payload.
\<close>

theorem send_forwards_payload_unchanged:
  "issued (snd (send_to_focused prim channel payload s))
     = issued s @ [\<lparr>command = ''plugin:windows|send_to_focused'',
                     arguments = Some [(''channel'', JString channel), (''payload'', payload)]\<rparr>]
   \<and> (fst (send_to_focused prim channel payload s),
        heap (snd (send_to_focused prim channel payload s)),
        host (snd (send_to_focused prim channel payload s)))
     = prim ''plugin:windows|send_to_focused''
         (Some [(''channel'', JString channel), (''payload'', payload)]) (heap s, host s)
   \<and> issued (snd (send_to_all prim channel payload s))
     = issued s @ [\<lparr>command = ''plugin:windows|send_to_all'',
                     arguments = Some [(''channel'', JString channel), (''payload'', payload)]\<rparr>]
   \<and> (fst (send_to_all prim channel payload s),
        heap (snd (send_to_all prim channel payload s)),
        host (snd (send_to_all prim channel payload s)))
     = prim ''plugin:windows|send_to_all''
         (Some [(''channel'', JString channel), (''payload'', payload)]) (heap s, host s)"
  unfolding send_to_focused_def send_to_all_def
  by (simp only: invoke_issued invoke_result simp_thms)

text \<open>
  C6, as the code has it. \<open>get_focused_window\<close> and \<open>get_last_active_window\<close> each make
  one remote call that has a command name and no argument record, and each returns the
  promise of that call: whenever the promise of the primitive is fulfilled, with whatever
  value, the promise of the method is fulfilled with that value, so with a string when
  the primitive replied with a string. The primitive here may reply with any value.
\<close>

theorem focus_queries_send_no_arguments:
  fixes prim :: "('n, 'h, 'n jsval) invoke_fn"
  shows
  "issued (snd (get_focused_window prim s))
     = issued s @ [\<lparr>command = ''plugin:windows|get_focused_window'', arguments = None\<rparr>]
   \<and> (fst (get_focused_window prim s), heap (snd (get_focused_window prim s)),
        host (snd (get_focused_window prim s)))
     = prim ''plugin:windows|get_focused_window'' None (heap s, host s)
   \<and> (settles (fst (prim ''plugin:windows|get_focused_window'' None (heap s, host s)))
          = Fulfilled v
        \<longrightarrow> settles (fst (get_focused_window prim s)) = Fulfilled v)
   \<and> (settles (fst (prim ''plugin:windows|get_focused_window'' None (heap s, host s)))
          = Fulfilled (JString w)
        \<longrightarrow> resolves_to_string (fst (get_focused_window prim s)))
   \<and> issued (snd (get_last_active_window prim s))
     = issued s @ [\<lparr>command = ''plugin:windows|get_last_active_window'', arguments = None\<rparr>]
   \<and> (fst (get_last_active_window prim s), heap (snd (get_last_active_window prim s)),
        host (snd (get_last_active_window prim s)))
     = prim ''plugin:windows|get_last_active_window'' None (heap s, host s)
   \<and> (settles (fst (prim ''plugin:windows|get_last_active_window'' None (heap s, host s)))
          = Fulfilled v'
        \<longrightarrow> settles (fst (get_last_active_window prim s)) = Fulfilled v')
   \<and> (settles (fst (prim ''plugin:windows|get_last_active_window'' None (heap s, host s)))
          = Fulfilled (JString w')
        \<longrightarrow> resolves_to_string (fst (get_last_active_window prim s)))"
  unfolding get_focused_window_def get_last_active_window_def invoke_result invoke_issued
  by (simp add: invoke_promise resolves_to_string_def)

theorem focus_queries_send_no_arguments_witness:
  "settles (fst (fulfils_with (JString ''main'') ''plugin:windows|get_focused_window'' None
       (heap sample_state, host sample_state))) = Fulfilled (JString ''main'' :: int jsval)
   \<and> settles (fst (get_focused_window (fulfils_with (JString ''main'')) sample_state))
       = Fulfilled (JString ''main'' :: int jsval)
   \<and> resolves_to_string (fst (get_focused_window (fulfils_with (JString ''main'')) sample_state))
   \<and> settles (fst (fulfils_with (JString ''main'') ''plugin:windows|get_last_active_window'' None
       (heap sample_state, host sample_state))) = Fulfilled (JString ''main'' :: int jsval)
   \<and> resolves_to_string
       (fst (get_last_active_window (fulfils_with (JString ''main'')) sample_state))
   \<and> arguments (last (issued (snd (get_focused_window
       (fulfils_with (JString ''main'' :: int jsval)) sample_state)))) = None"
proof -
  have f: "settles (fst (fulfils_with (JString ''main'') cmd None
              (heap sample_state, host sample_state)
              :: (int, int jsval) promise \<times> int heap \<times> unit)) = Fulfilled (JString ''main'')"
    for cmd
    by (simp add: fulfils_with_def)
  note c = focus_queries_send_no_arguments
    [of "fulfils_with (JString ''main'')" sample_state "JString ''main''" "''main''"
        "JString ''main''" "''main''"]
  from c f show ?thesis by simp
qed

text \<open>
  C6, as the claim states it, fails: on the sample state, with a primitive whose promise
  is fulfilled with the number 42, the call succeeds and the promise of
  \<open>get_focused_window\<close> is fulfilled with 42, which is no string; and with a primitive
  that replies \<^verbatim>\<open>null\<close>, neither is the promise of \<open>get_last_active_window\<close>.
\<close>

theorem focus_queries_string_result_counterexample:
  "settles (fst (fulfils_with (JNumber 42) ''plugin:windows|get_focused_window'' None
       (heap sample_state, host sample_state))) = Fulfilled (JNumber 42 :: int jsval)
   \<and> settles (fst (get_focused_window (fulfils_with (JNumber 42)) sample_state))
       = Fulfilled (JNumber 42 :: int jsval)
   \<and> \<not> resolves_to_string (fst (get_focused_window (fulfils_with (JNumber 42)) sample_state))
   \<and> settles (fst (get_last_active_window (fulfils_with JNull) sample_state))
       = Fulfilled (JNull :: int jsval)
   \<and> \<not> resolves_to_string (fst (get_last_active_window (fulfils_with JNull) sample_state))"
  by (simp add: get_focused_window_def get_last_active_window_def invoke_promise
      fulfils_with_def resolves_to_string_def)

subsection \<open>Settlement\<close>

text \<open>
  C2. Every method returns the promise the primitive returned for its request, the same
  object: so for each of the seven methods and every error value, if the promise of the
  primitive is rejected with that error, the promise of the method is rejected with that
  same error.
\<close>

theorem rejection_reaches_caller_unchanged:
  fixes prim :: "('n, 'h, unit) invoke_fn" and prim' :: "('n, 'h, string) invoke_fn"
  shows
  "(let p = fst (prim ''plugin:windows|open_window''
              (Some [(''configuration'', JRef configuration)]) (heap s, host s));
        q = fst (open_window prim configuration s)
    in q = p \<and> (settles p = Rejected e \<longrightarrow> settles q = Rejected e))
   \<and> (let p = fst (prim ''plugin:windows|open_empty_window''
              (Some [(''configuration'', JRef configuration), (''options'', JRef options)])
              (heap s, host s));
        q = fst (open_empty_window prim configuration options s)
    in q = p \<and> (settles p = Rejected e \<longrightarrow> settles q = Rejected e))
   \<and> (let p = fst (prim ''plugin:windows|open_existing_window''
              (Some [(''configuration'', JRef configuration),
                     (''windowToUse'', JString windowToUse)])
              (heap s, host s));
        q = fst (open_existing_window prim configuration windowToUse s)
    in q = p \<and> (settles p = Rejected e \<longrightarrow> settles q = Rejected e))
   \<and> (let p = fst (prim ''plugin:windows|send_to_focused''
              (Some [(''channel'', JString channel), (''payload'', payload)]) (heap s, host s));
        q = fst (send_to_focused prim channel payload s)
    in q = p \<and> (settles p = Rejected e \<longrightarrow> settles q = Rejected e))
   \<and> (let p = fst (prim ''plugin:windows|send_to_all''
              (Some [(''channel'', JString channel), (''payload'', payload)]) (heap s, host s));
        q = fst (send_to_all prim channel payload s)
    in q = p \<and> (settles p = Rejected e \<longrightarrow> settles q = Rejected e))
   \<and> (let p = fst (prim' ''plugin:windows|get_focused_window'' None (heap s, host s));
        q = fst (get_focused_window prim' s)
    in q = p \<and> (settles p = Rejected e \<longrightarrow> settles q = Rejected e))
   \<and> (let p = fst (prim' ''plugin:windows|get_last_active_window'' None (heap s, host s));
        q = fst (get_last_active_window prim' s)
    in q = p \<and> (settles p = Rejected e \<longrightarrow> settles q = Rejected e))"
  unfolding method_defs Let_def by (simp only: invoke_promise simp_thms)

theorem rejection_reaches_caller_unchanged_witness:
  "settles (fst (open_window
       (rejects_with (JRef 2) :: (int, unit, unit) invoke_fn) 0 sample_state))
     = Rejected (JRef 2)
   \<and> settles (fst (open_empty_window
       (rejects_with (JRef 2) :: (int, unit, unit) invoke_fn) 0 1 sample_state))
     = Rejected (JRef 2)
   \<and> settles (fst (open_existing_window
       (rejects_with (JRef 2) :: (int, unit, unit) invoke_fn) 0 ''main'' sample_state))
     = Rejected (JRef 2)
   \<and> settles (fst (send_to_focused
       (rejects_with (JRef 2) :: (int, unit, unit) invoke_fn) ''notify'' (JRef 3) sample_state))
     = Rejected (JRef 2)
   \<and> settles (fst (send_to_all
       (rejects_with (JRef 2) :: (int, unit, unit) invoke_fn) ''notify'' (JRef 3) sample_state))
     = Rejected (JRef 2)
   \<and> settles (fst (get_focused_window
       (rejects_with (JRef 2) :: (int, unit, string) invoke_fn) sample_state))
     = Rejected (JRef 2)
   \<and> settles (fst (get_last_active_window
       (rejects_with (JRef 2) :: (int, unit, string) invoke_fn) sample_state))
     = Rejected (JRef 2)"
proof -
  have r: "settles (fst (rejects_with (JRef 2) cmd args (heap sample_state, host sample_state)
              :: (int, 'a) promise \<times> int heap \<times> unit)) = Rejected (JRef 2)" for cmd args
    by (simp add: rejects_with_def)
  note c = rejection_reaches_caller_unchanged
    [of "rejects_with (JRef 2)" 0 sample_state "JRef 2" 1 "''main''" "''notify''" "JRef 3"
        "rejects_with (JRef 2)", unfolded Let_def]
  from c show ?thesis by (simp only: r simp_thms)
qed

subsection \<open>One run of the primitive per call\<close>

lemma run_method_issued:
  "issued (snd (run_method t (Open_window c) s))
     = issued s @ [\<lparr>command = ''plugin:windows|open_window'',
                     arguments = Some [(''configuration'', JRef c)]\<rparr>]"
  "issued (snd (run_method t (Open_empty_window c w) s))
     = issued s @ [\<lparr>command = ''plugin:windows|open_empty_window'',
                     arguments = Some [(''configuration'', JRef c), (''options'', JRef w)]\<rparr>]"
  "issued (snd (run_method t (Open_existing_window c i) s))
     = issued s @ [\<lparr>command = ''plugin:windows|open_existing_window'',
                     arguments = Some [(''configuration'', JRef c),
                                       (''windowToUse'', JString i)]\<rparr>]"
  "issued (snd (run_method t (Send_to_focused ch v) s))
     = issued s @ [\<lparr>command = ''plugin:windows|send_to_focused'',
                     arguments = Some [(''channel'', JString ch), (''payload'', v)]\<rparr>]"
  "issued (snd (run_method t (Send_to_all ch v) s))
     = issued s @ [\<lparr>command = ''plugin:windows|send_to_all'',
                     arguments = Some [(''channel'', JString ch), (''payload'', v)]\<rparr>]"
  "issued (snd (run_method t Get_focused_window s))
     = issued s @ [\<lparr>command = ''plugin:windows|get_focused_window'', arguments = None\<rparr>]"
  "issued (snd (run_method t Get_last_active_window s))
     = issued s @ [\<lparr>command = ''plugin:windows|get_last_active_window'', arguments = None\<rparr>]"
  by (simp_all add: method_defs invoke_def split: prod.splits)

lemma run_method_result:
  "(fst (run_method t (Open_window c) s), heap (snd (run_method t (Open_window c) s)),
      host (snd (run_method t (Open_window c) s)))
     = primitive_run t (Open_window c)
         \<lparr>command = ''plugin:windows|open_window'',
          arguments = Some [(''configuration'', JRef c)]\<rparr> (heap s, host s)"
  "(fst (run_method t (Open_empty_window c w) s),
      heap (snd (run_method t (Open_empty_window c w) s)),
      host (snd (run_method t (Open_empty_window c w) s)))
     = primitive_run t (Open_empty_window c w)
         \<lparr>command = ''plugin:windows|open_empty_window'',
          arguments = Some [(''configuration'', JRef c), (''options'', JRef w)]\<rparr>
         (heap s, host s)"
  "(fst (run_method t (Open_existing_window c i) s),
      heap (snd (run_method t (Open_existing_window c i) s)),
      host (snd (run_method t (Open_existing_window c i) s)))
     = primitive_run t (Open_existing_window c i)
         \<lparr>command = ''plugin:windows|open_existing_window'',
          arguments = Some [(''configuration'', JRef c), (''windowToUse'', JString i)]\<rparr>
         (heap s, host s)"
  "(fst (run_method t (Send_to_focused ch v) s),
      heap (snd (run_method t (Send_to_focused ch v) s)),
      host (snd (run_method t (Send_to_focused ch v) s)))
     = primitive_run t (Send_to_focused ch v)
         \<lparr>command = ''plugin:windows|send_to_focused'',
          arguments = Some [(''channel'', JString ch), (''payload'', v)]\<rparr> (heap s, host s)"
  "(fst (run_method t (Send_to_all ch v) s),
      heap (snd (run_method t (Send_to_all ch v) s)),
      host (snd (run_method t (Send_to_all ch v) s)))
     = primitive_run t (Send_to_all ch v)
         \<lparr>command = ''plugin:windows|send_to_all'',
          arguments = Some [(''channel'', JString ch), (''payload'', v)]\<rparr> (heap s, host s)"
  "(fst (run_method t Get_focused_window s), heap (snd (run_method t Get_focused_window s)),
      host (snd (run_method t Get_focused_window s)))
     = primitive_run t Get_focused_window
         \<lparr>command = ''plugin:windows|get_focused_window'', arguments = None\<rparr> (heap s, host s)"
  "(fst (run_method t Get_last_active_window s),
      heap (snd (run_method t Get_last_active_window s)),
      host (snd (run_method t Get_last_active_window s)))
     = primitive_run t Get_last_active_window
         \<lparr>command = ''plugin:windows|get_last_active_window'', arguments = None\<rparr>
         (heap s, host s)"
  by (simp_all add: method_defs invoke_def primitive_run_def split: prod.splits)

text \<open>
  For each operation with its arguments there is one request such that, whatever the
  primitive and the state, the call adds that request to the history and returns promise,
  store and host as one run of the primitive on that request and the caller's store and
  host leaves them.
\<close>

lemma run_method_one_run:
  "\<exists>rq. \<forall>t s. issued (snd (run_method t opn s)) = issued s @ [rq]
      \<and> (fst (run_method t opn s), heap (snd (run_method t opn s)),
           host (snd (run_method t opn s)))
         = primitive_run t opn rq (heap s, host s)"
proof (cases opn)
  case (Open_window c)
  show ?thesis
    unfolding Open_window
    by (rule exI [of _ "\<lparr>command = ''plugin:windows|open_window'',
                          arguments = Some [(''configuration'', JRef c)]\<rparr>"])
       (simp only: run_method_issued run_method_result simp_thms)
next
  case (Open_empty_window c w)
  show ?thesis
    unfolding Open_empty_window
    by (rule exI [of _ "\<lparr>command = ''plugin:windows|open_empty_window'',
                          arguments = Some [(''configuration'', JRef c),
                                            (''options'', JRef w)]\<rparr>"])
       (simp only: run_method_issued run_method_result simp_thms)
next
  case (Open_existing_window c i)
  show ?thesis
    unfolding Open_existing_window
    by (rule exI [of _ "\<lparr>command = ''plugin:windows|open_existing_window'',
                          arguments = Some [(''configuration'', JRef c),
                                            (''windowToUse'', JString i)]\<rparr>"])
       (simp only: run_method_issued run_method_result simp_thms)
next
  case (Send_to_focused ch v)
  show ?thesis
    unfolding Send_to_focused
    by (rule exI [of _ "\<lparr>command = ''plugin:windows|send_to_focused'',
                          arguments = Some [(''channel'', JString ch), (''payload'', v)]\<rparr>"])
       (simp only: run_method_issued run_method_result simp_thms)
next
  case (Send_to_all ch v)
  show ?thesis
    unfolding Send_to_all
    by (rule exI [of _ "\<lparr>command = ''plugin:windows|send_to_all'',
                          arguments = Some [(''channel'', JString ch), (''payload'', v)]\<rparr>"])
       (simp only: run_method_issued run_method_result simp_thms)
next
  case Get_focused_window
  show ?thesis
    unfolding Get_focused_window
    by (rule exI [of _ "\<lparr>command = ''plugin:windows|get_focused_window'',
                          arguments = None\<rparr>"])
       (simp only: run_method_issued run_method_result simp_thms)
next
  case Get_last_active_window
  show ?thesis
    unfolding Get_last_active_window
    by (rule exI [of _ "\<lparr>command = ''plugin:windows|get_last_active_window'',
                          arguments = None\<rparr>"])
       (simp only: run_method_issued run_method_result simp_thms)
qed

text \<open>
  C8. Every invocation of every operation makes exactly one remote call: it adds one
  request to the history, and the promise it returns and the store and the host it
  leaves are exactly those of one run of the primitive on that request and on the
  caller's store and host, whatever that promise settles to. A second run, after a
  rejection or otherwise, would leave the host of the second run; a checked or
  transformed result would not be the primitive's promise. This holds of a call by name
  and of each of the seven methods.
\<close>

theorem one_call_per_invocation:
  "(\<exists>rq. issued (snd (run_method t opn s)) = issued s @ [rq]
       \<and> (fst (run_method t opn s), heap (snd (run_method t opn s)),
            host (snd (run_method t opn s)))
          = primitive_run t opn rq (heap s, host s))
   \<and> length (issued (snd (run_method t opn s))) = Suc (length (issued s))
   \<and> (fst (open_window (invoke_null t) configuration s),
        heap (snd (open_window (invoke_null t) configuration s)),
        host (snd (open_window (invoke_null t) configuration s)))
       = invoke_null t ''plugin:windows|open_window''
           (Some [(''configuration'', JRef configuration)]) (heap s, host s)
   \<and> length (issued (snd (open_window (invoke_null t) configuration s)))
       = Suc (length (issued s))
   \<and> (fst (open_empty_window (invoke_null t) configuration options s),
        heap (snd (open_empty_window (invoke_null t) configuration options s)),
        host (snd (open_empty_window (invoke_null t) configuration options s)))
       = invoke_null t ''plugin:windows|open_empty_window''
           (Some [(''configuration'', JRef configuration), (''options'', JRef options)])
           (heap s, host s)
   \<and> length (issued (snd (open_empty_window (invoke_null t) configuration options s)))
       = Suc (length (issued s))
   \<and> (fst (open_existing_window (invoke_null t) configuration windowToUse s),
        heap (snd (open_existing_window (invoke_null t) configuration windowToUse s)),
        host (snd (open_existing_window (invoke_null t) configuration windowToUse s)))
       = invoke_null t ''plugin:windows|open_existing_window''
           (Some [(''configuration'', JRef configuration),
                  (''windowToUse'', JString windowToUse)])
           (heap s, host s)
   \<and> length (issued (snd (open_existing_window (invoke_null t) configuration windowToUse s)))
       = Suc (length (issued s))
   \<and> (fst (send_to_focused (invoke_null t) channel payload s),
        heap (snd (send_to_focused (invoke_null t) channel payload s)),
        host (snd (send_to_focused (invoke_null t) channel payload s)))
       = invoke_null t ''plugin:windows|send_to_focused''
           (Some [(''channel'', JString channel), (''payload'', payload)]) (heap s, host s)
   \<and> length (issued (snd (send_to_focused (invoke_null t) channel payload s)))
       = Suc (length (issued s))
   \<and> (fst (send_to_all (invoke_null t) channel payload s),
        heap (snd (send_to_all (invoke_null t) channel payload s)),
        host (snd (send_to_all (invoke_null t) channel payload s)))
       = invoke_null t ''plugin:windows|send_to_all''
           (Some [(''channel'', JString channel), (''payload'', payload)]) (heap s, host s)
   \<and> length (issued (snd (send_to_all (invoke_null t) channel payload s)))
       = Suc (length (issued s))
   \<and> (fst (get_focused_window (invoke_string t) s),
        heap (snd (get_focused_window (invoke_string t) s)),
        host (snd (get_focused_window (invoke_string t) s)))
       = invoke_string t ''plugin:windows|get_focused_window'' None (heap s, host s)
   \<and> length (issued (snd (get_focused_window (invoke_string t) s)))
       = Suc (length (issued s))
   \<and> (fst (get_last_active_window (invoke_string t) s),
        heap (snd (get_last_active_window (invoke_string t) s)),
        host (snd (get_last_active_window (invoke_string t) s)))
       = invoke_string t ''plugin:windows|get_last_active_window'' None (heap s, host s)
   \<and> length (issued (snd (get_last_active_window (invoke_string t) s)))
       = Suc (length (issued s))"
proof -
  from run_method_one_run [of opn] obtain rq where
    rq: "issued (snd (run_method t opn s)) = issued s @ [rq]
      \<and> (fst (run_method t opn s), heap (snd (run_method t opn s)),
           host (snd (run_method t opn s)))
         = primitive_run t opn rq (heap s, host s)"
    by blast
  then have n: "length (issued (snd (run_method t opn s))) = Suc (length (issued s))"
    by simp
  from rq n show ?thesis
    unfolding method_defs invoke_result by (simp only: invoke_one_more simp_thms) blast
qed

subsection \<open>Effects on the store\<close>

lemma run_method_world:
  "(\<exists>cmd args. (heap (snd (run_method t opn s)), host (snd (run_method t opn s)))
        = snd (invoke_null t cmd args (heap s, host s)))
   \<or> (\<exists>cmd args. (heap (snd (run_method t opn s)), host (snd (run_method t opn s)))
        = snd (invoke_string t cmd args (heap s, host s)))"
proof (cases opn)
  case (Open_window c)
  have "(heap (snd (run_method t opn s)), host (snd (run_method t opn s)))
      = snd (invoke_null t ''plugin:windows|open_window'' (Some [(''configuration'', JRef c)])
          (heap s, host s))"
    by (simp add: Open_window open_window_def invoke_def split: prod.splits)
  then show ?thesis by blast
next
  case (Open_empty_window c w)
  have "(heap (snd (run_method t opn s)), host (snd (run_method t opn s)))
      = snd (invoke_null t ''plugin:windows|open_empty_window''
          (Some [(''configuration'', JRef c), (''options'', JRef w)]) (heap s, host s))"
    by (simp add: Open_empty_window open_empty_window_def invoke_def split: prod.splits)
  then show ?thesis by blast
next
  case (Open_existing_window c w)
  have "(heap (snd (run_method t opn s)), host (snd (run_method t opn s)))
      = snd (invoke_null t ''plugin:windows|open_existing_window''
          (Some [(''configuration'', JRef c), (''windowToUse'', JString w)]) (heap s, host s))"
    by (simp add: Open_existing_window open_existing_window_def invoke_def split: prod.splits)
  then show ?thesis by blast
next
  case (Send_to_focused c v)
  have "(heap (snd (run_method t opn s)), host (snd (run_method t opn s)))
      = snd (invoke_null t ''plugin:windows|send_to_focused''
          (Some [(''channel'', JString c), (''payload'', v)]) (heap s, host s))"
    by (simp add: Send_to_focused send_to_focused_def invoke_def split: prod.splits)
  then show ?thesis by blast
next
  case (Send_to_all c v)
  have "(heap (snd (run_method t opn s)), host (snd (run_method t opn s)))
      = snd (invoke_null t ''plugin:windows|send_to_all''
          (Some [(''channel'', JString c), (''payload'', v)]) (heap s, host s))"
    by (simp add: Send_to_all send_to_all_def invoke_def split: prod.splits)
  then show ?thesis by blast
next
  case Get_focused_window
  have "(heap (snd (run_method t opn s)), host (snd (run_method t opn s)))
      = snd (invoke_string t ''plugin:windows|get_focused_window'' None (heap s, host s))"
    by (simp add: Get_focused_window get_focused_window_def invoke_def split: prod.splits)
  then show ?thesis by blast
next
  case Get_last_active_window
  have "(heap (snd (run_method t opn s)), host (snd (run_method t opn s)))
      = snd (invoke_string t ''plugin:windows|get_last_active_window'' None (heap s, host s))"
    by (simp add: Get_last_active_window get_last_active_window_def invoke_def
        split: prod.splits)
  then show ?thesis by blast
qed

lemma run_method_module_cache:
  "module_cache (snd (run_method t opn s)) = module_cache s"
  by (cases opn) (simp_all add: method_defs invoke_def split: prod.splits)

lemma keeps_objects_heap:
  assumes "keeps_objects prim"
  shows "take (length h) (fst (snd (prim cmd args (h, e)))) = h"
  using assms unfolding keeps_objects_def by blast

lemma run_method_keeps_objects:
  assumes n: "keeps_objects (invoke_null t)" and g: "keeps_objects (invoke_string t)"
  shows "take (length (heap s)) (heap (snd (run_method t opn s))) = heap s"
proof -
  from run_method_world [of t opn s] consider
    cmd args where "heap (snd (run_method t opn s))
        = fst (snd (invoke_null t cmd args (heap s, host s)))"
  | cmd args where "heap (snd (run_method t opn s))
        = fst (snd (invoke_string t cmd args (heap s, host s)))"
    by (metis fst_conv)
  then show ?thesis
  proof cases
    case 1
    then show ?thesis by (simp add: keeps_objects_heap [OF n])
  next
    case 2
    then show ?thesis by (simp add: keeps_objects_heap [OF g])
  qed
qed

lemma lookup_take:
  assumes "take (length h) h' = h" and "r < length h"
  shows "lookup h' r = lookup h r"
proof -
  from assms(1) have "length (take (length h) h') = length h"
    by simp
  then have l: "length h \<le> length h'"
    by simp
  have "h' ! r = take (length h) h' ! r"
    using assms(2) by simp
  with assms l show ?thesis
    by (simp add: lookup_def)
qed

text \<open>
  C9. For every operation and every argument, the state after the call differs from the
  state before it only by what the one run of the primitive did to the store and the host
  it was handed, which are the caller's, and by the entry in the list of issued calls;
  the module registry is as before. So for a primitive that writes to no object the
  webview holds, every object that existed before the call, the configuration, the
  options and every object a payload reaches among them, and the instance of the service
  as well, is after the call what it was before: no field of an argument has changed and
  nothing of the client has come to refer to it.
\<close>

theorem client_leaves_arguments_untouched:
  "((\<exists>cmd args. (heap (snd (run_method t opn s)), host (snd (run_method t opn s)))
         = snd (invoke_null t cmd args (heap s, host s)))
    \<or> (\<exists>cmd args. (heap (snd (run_method t opn s)), host (snd (run_method t opn s)))
         = snd (invoke_string t cmd args (heap s, host s))))
   \<and> module_cache (snd (run_method t opn s)) = module_cache s
   \<and> (keeps_objects (invoke_null t) \<and> keeps_objects (invoke_string t) \<longrightarrow>
        take (length (heap s)) (heap (snd (run_method t opn s))) = heap s
        \<and> (\<forall>r. r < length (heap s) \<longrightarrow>
              lookup (heap (snd (run_method t opn s))) r = lookup (heap s) r))"
proof (intro conjI impI allI)
  show "(\<exists>cmd args. (heap (snd (run_method t opn s)), host (snd (run_method t opn s)))
           = snd (invoke_null t cmd args (heap s, host s)))
      \<or> (\<exists>cmd args. (heap (snd (run_method t opn s)), host (snd (run_method t opn s)))
           = snd (invoke_string t cmd args (heap s, host s)))"
    by (rule run_method_world)
  show "module_cache (snd (run_method t opn s)) = module_cache s"
    by (rule run_method_module_cache)
next
  assume k: "keeps_objects (invoke_null t) \<and> keeps_objects (invoke_string t)"
  then show "take (length (heap s)) (heap (snd (run_method t opn s))) = heap s"
    by (simp add: run_method_keeps_objects)
next
  fix r
  assume k: "keeps_objects (invoke_null t) \<and> keeps_objects (invoke_string t)"
    and r: "r < length (heap s)"
  from k have "take (length (heap s)) (heap (snd (run_method t opn s))) = heap s"
    by (simp add: run_method_keeps_objects)
  then show "lookup (heap (snd (run_method t opn s))) r = lookup (heap s) r"
    using r by (rule lookup_take)
qed

theorem client_leaves_arguments_untouched_witness:
  "keeps_objects (invoke_null sample_tauri) \<and> keeps_objects (invoke_string sample_tauri)
   \<and> lookup (heap (snd (run_method sample_tauri (Open_empty_window 0 1) sample_state))) 0
       = Some (OpenConfiguration_cell sample_configuration)
   \<and> lookup (heap (snd (run_method sample_tauri (Open_empty_window 0 1) sample_state))) 1
       = Some (WindowOptions_cell sample_options)
   \<and> module_cache (snd (run_method sample_tauri (Open_empty_window 0 1) sample_state)) = None"
proof -
  have k: "keeps_objects (invoke_null sample_tauri) \<and> keeps_objects (invoke_string sample_tauri)"
    by (simp add: sample_tauri_def keeps_objects_def fulfils_with_def)
  note c = client_leaves_arguments_untouched
    [of sample_tauri "Open_empty_window 0 1" sample_state]
  from c k have a: "\<forall>r. r < length (heap sample_state) \<longrightarrow>
      lookup (heap (snd (run_method sample_tauri (Open_empty_window 0 1) sample_state))) r
        = lookup (heap sample_state) r"
    by blast
  have l: "length (heap sample_state) = 5"
    by (simp add: sample_state_def sample_store_def)
  have "lookup (heap (snd (run_method sample_tauri (Open_empty_window 0 1) sample_state))) 0
      = lookup (heap sample_state) 0"
    using a l by simp
  moreover have "lookup (heap sample_state) 0 = Some (OpenConfiguration_cell sample_configuration)"
    by (simp add: lookup_def sample_state_def sample_store_def)
  moreover have
    "lookup (heap (snd (run_method sample_tauri (Open_empty_window 0 1) sample_state))) 1
      = lookup (heap sample_state) 1"
    using a l by simp
  moreover have "lookup (heap sample_state) 1 = Some (WindowOptions_cell sample_options)"
    by (simp add: lookup_def sample_state_def sample_store_def)
  moreover from c
  have "module_cache (snd (run_method sample_tauri (Open_empty_window 0 1) sample_state))
      = module_cache sample_state"
    by blast
  moreover have "module_cache sample_state = None"
    by (simp add: sample_state_def)
  ultimately show ?thesis
    using k by simp
qed

subsection \<open>Determinism of the request\<close>

lemma lookup_snoc:
  "lookup (h @ [c]) (length h) = Some c"
  by (simp add: lookup_def)

text \<open>
  C10. The request an operation sends is determined by the operation and its arguments
  alone: for each there is one request that is issued whatever the primitive and whatever
  the state, so whatever calls came before, and that request is what the one run of the
  primitive receives. Construction plays no part: the object
  \<^verbatim>\<open>new Windows()\<close> makes has no property of its own, and no method takes the instance
  as an input.
\<close>

theorem request_is_a_function_of_the_arguments:
  "(\<exists>rq. \<forall>t s. issued (snd (run_method t opn s)) = issued s @ [rq]
       \<and> (fst (run_method t opn s), heap (snd (run_method t opn s)),
            host (snd (run_method t opn s)))
          = primitive_run t opn rq (heap s, host s))
   \<and> lookup (snd (new_Windows h)) (fst (new_Windows h))
       = Some (Object_cell \<lparr>prototype = Windows_prototype, own = [], frozen = False\<rparr>)"
proof
  show "\<exists>rq. \<forall>t s. issued (snd (run_method t opn s)) = issued s @ [rq]
       \<and> (fst (run_method t opn s), heap (snd (run_method t opn s)),
            host (snd (run_method t opn s)))
          = primitive_run t opn rq (heap s, host s)"
    by (rule run_method_one_run)
  show "lookup (snd (new_Windows h)) (fst (new_Windows h))
      = Some (Object_cell \<lparr>prototype = Windows_prototype, own = [], frozen = False\<rparr>)"
    by (simp add: new_Windows_def lookup_snoc)
qed

subsection \<open>The exported instance\<close>








text \<open>
  Freezing is what the next theorem rests on: on the instance as the constructor leaves
  it, an assignment succeeds and the call that follows no longer reaches the class.
\<close>

lemma unfrozen_instance_is_shadowed:
  assumes "new_Windows (heap s) = (r, h)"
    and "assign_property strict r ''open_window'' v h = Some (c, h')"
  shows "c = Done \<and> call_member t r (Open_window w) (s\<lparr>heap := h'\<rparr>)
           = (Foreign_call v, s\<lparr>heap := h'\<rparr>)"
  using assms
  by (auto simp add: new_Windows_def assign_property_def call_member_def lookup_def
      split: if_splits)




end
